theory Spec2Isabelle
  imports Main
begin

section \<open>The NodeClaim data model (pkg/apis/v1/nodeclaim.go)\<close>

text \<open>
  The Go structs become records. Types that the file only imports are kept as small as
  the validation rules need them:
  \<^item> \<open>v1.Taint\<close> is a triple of key, value and effect;
  \<^item> \<open>v1.ResourceList\<close> is a Go map from resource name to quantity, both in their
    serialised form;
  \<^item> \<open>v1.NodeSelectorRequirement\<close> has the fields \<open>Key\<close>, \<open>Operator\<close> and \<open>Values\<close>;
    \<open>NodeSelectorOperator\<close> is a Go string type, so an operator is a string and the
    rules compare it with the literals \<open>''In''\<close>, \<open>''Gt''\<close> and \<open>''Lt''\<close>;
  \<^item> a pointer field (\<open>*int\<close>, \<open>*NodeClassReference\<close>) is an option, \<open>None\<close> being nil,
    which \<open>omitempty\<close> leaves out of the serialised object.
\<close>

datatype Taint = Taint string string string

type_synonym ResourceList = "string \<rightharpoonup> string"

type_synonym NodeSelectorOperator = string

record NodeSelectorRequirement =
  Key :: string
  Operator :: NodeSelectorOperator
  Values :: "string list"

text \<open>The Go struct embeds \<open>v1.NodeSelectorRequirement\<close> inline and adds \<open>MinValues *int\<close>.\<close>

record NodeSelectorRequirementWithMinValues = NodeSelectorRequirement +
  MinValues :: "int option"

record ResourceRequirements =
  Requests :: ResourceList

text \<open>\<open>NodeClassReference {Kind, Name, Group}\<close>, in the order of the struct.\<close>

datatype NodeClassReference = NodeClassReference string string string

record NodeClaimSpec =
  Taints :: "Taint list"
  StartupTaints :: "Taint list"
  Requirements :: "NodeSelectorRequirementWithMinValues list"
  Resources :: ResourceRequirements
  NodeClassRef :: "NodeClassReference option"

text \<open>
  \<open>NodeClaim\<close>: the metadata types come from apimachinery and \<open>NodeClaimStatus\<close> is
  declared in another file of the package, so both are type parameters.
\<close>

record ('meta, 'status) NodeClaim =
  ObjectMeta :: 'meta
  Spec :: NodeClaimSpec
  Status :: 'status

section \<open>Evaluation of the validation rules\<close>

text \<open>
  The rules on \<open>Requirements\<close> and on \<open>Spec\<close> are CEL expressions
  (\<open>+kubebuilder:validation:XValidation\<close>). A CEL expression evaluates to a value or to an
  error, and a rule that does not evaluate to \<open>true\<close> rejects the object. The operators
  the rules use:
  \<^item> \<open>a && b\<close> and \<open>a || b\<close> absorb an error of one side when the other side decides;
  \<^item> \<open>c ? a : b\<close> evaluates only the branch the condition selects;
  \<^item> \<open>l.all(x, p)\<close> is \<open>false\<close> when \<open>p\<close> is false of some element, otherwise an error
    when \<open>p\<close> fails on some element, otherwise \<open>true\<close>;
  \<^item> \<open>l[i]\<close> fails out of range;
  \<^item> \<open>int(s)\<close> converts a string and fails when the string is not an integer.
\<close>

datatype cel_error = NoSuchKey | IndexOutOfBounds | ConversionError

type_synonym 'a cel = "cel_error + 'a"

fun cel_and :: "bool cel \<Rightarrow> bool cel \<Rightarrow> bool cel" where
  "cel_and (Inr False) _ = Inr False"
| "cel_and _ (Inr False) = Inr False"
| "cel_and (Inl e) _ = Inl e"
| "cel_and _ (Inl e) = Inl e"
| "cel_and (Inr True) (Inr True) = Inr True"

fun cel_or :: "bool cel \<Rightarrow> bool cel \<Rightarrow> bool cel" where
  "cel_or (Inr True) _ = Inr True"
| "cel_or _ (Inr True) = Inr True"
| "cel_or (Inl e) _ = Inl e"
| "cel_or _ (Inl e) = Inl e"
| "cel_or (Inr False) (Inr False) = Inr False"

definition cel_cond :: "bool cel \<Rightarrow> 'a cel \<Rightarrow> 'a cel \<Rightarrow> 'a cel" where
  "cel_cond c a b = (case c of Inl e \<Rightarrow> Inl e | Inr t \<Rightarrow> if t then a else b)"

fun cel_all :: "('a \<Rightarrow> bool cel) \<Rightarrow> 'a list \<Rightarrow> bool cel" where
  "cel_all p [] = Inr True"
| "cel_all p (x # xs) = cel_and (p x) (cel_all p xs)"

definition cel_index :: "'a list \<Rightarrow> nat \<Rightarrow> 'a cel" where
  "cel_index l i = (if i < length l then Inr (l ! i) else Inl IndexOutOfBounds)"

definition cel_size :: "'a list \<Rightarrow> int" where
  "cel_size l = int (length l)"

definition cel_bind :: "'a cel \<Rightarrow> ('a \<Rightarrow> 'b cel) \<Rightarrow> 'b cel" where
  "cel_bind a f = (case a of Inl e \<Rightarrow> Inl e | Inr v \<Rightarrow> f v)"

text \<open>
  Rule 1, message "requirements with operator 'In' must have a value defined":
  \<^verbatim>\<open>self.all(x, x.operator == 'In' ? x.values.size() != 0 : true)\<close>
\<close>

definition in_has_value :: "NodeSelectorRequirementWithMinValues \<Rightarrow> bool cel" where
  "in_has_value x =
     cel_cond (Inr (Operator x = ''In'')) (Inr (cel_size (Values x) \<noteq> 0)) (Inr True)"

text \<open>
  Rule 2, message "requirements operator 'Gt' or 'Lt' must have a single positive integer
  value":
  \<^verbatim>\<open>self.all(x, (x.operator == 'Gt' || x.operator == 'Lt') ?
       (x.values.size() == 1 && int(x.values[0]) >= 0) : true)\<close>
  The conversion \<open>int\<close> belongs to the CEL library; it is the parameter \<open>cel_int\<close>.
\<close>

definition gt_lt_single_int ::
  "(string \<Rightarrow> int cel) \<Rightarrow> NodeSelectorRequirementWithMinValues \<Rightarrow> bool cel" where
  "gt_lt_single_int cel_int x =
     cel_cond (cel_or (Inr (Operator x = ''Gt'')) (Inr (Operator x = ''Lt'')))
       (cel_and (Inr (cel_size (Values x) = 1))
          (cel_bind (cel_bind (cel_index (Values x) 0) cel_int) (\<lambda>n. Inr (n \<ge> 0))))
       (Inr True)"

text \<open>
  Rule 3, message "requirements with 'minValues' must have at least that many values
  specified in the 'values' field":
  \<^verbatim>\<open>self.all(x, (x.operator == 'In' && has(x.minValues)) ?
       x.values.size() >= x.minValues : true)\<close>
  \<open>has(x.minValues)\<close> holds when the pointer is not nil; reading an absent field fails.
\<close>

definition min_values_le_size :: "NodeSelectorRequirementWithMinValues \<Rightarrow> bool cel" where
  "min_values_le_size x =
     cel_cond (cel_and (Inr (Operator x = ''In'')) (Inr (MinValues x \<noteq> None)))
       (cel_bind (case MinValues x of None \<Rightarrow> Inl NoSuchKey | Some m \<Rightarrow> Inr m)
          (\<lambda>m. Inr (cel_size (Values x) \<ge> m)))
       (Inr True)"

text \<open>
  A rule on the list passes when it evaluates to \<open>true\<close>: \<open>false\<close> and an evaluation
  error both reject the object.
\<close>

definition rule_in_has_value :: "NodeSelectorRequirementWithMinValues list \<Rightarrow> bool" where
  "rule_in_has_value self = (cel_all in_has_value self = Inr True)"

definition rule_gt_lt_single_int ::
  "(string \<Rightarrow> int cel) \<Rightarrow> NodeSelectorRequirementWithMinValues list \<Rightarrow> bool" where
  "rule_gt_lt_single_int cel_int self = (cel_all (gt_lt_single_int cel_int) self = Inr True)"

definition rule_min_values :: "NodeSelectorRequirementWithMinValues list \<Rightarrow> bool" where
  "rule_min_values self = (cel_all min_values_le_size self = Inr True)"

text \<open>
  The schema markers of the same fields: \<open>MaxItems:=100\<close> on \<open>Requirements\<close>,
  \<open>Minimum:=1\<close> and \<open>Maximum:=50\<close> on \<open>MinValues\<close>, \<open>+required\<close> on \<open>NodeClassRef\<close>.
  The other \<open>+required\<close> markers (on \<open>Requirements\<close> and on the three strings of
  \<open>NodeClassReference\<close>) ask for a key of the serialised object; these fields have no
  \<open>omitempty\<close> and are always serialised, so the records carry no check for them.
\<close>

datatype ValidationError =
  XValidation string
| MaxItems string
| Minimum string
| Maximum string
| Required string

definition min_values_below :: "NodeSelectorRequirementWithMinValues \<Rightarrow> bool" where
  "min_values_below x = (case MinValues x of None \<Rightarrow> False | Some m \<Rightarrow> m < 1)"

definition min_values_above :: "NodeSelectorRequirementWithMinValues \<Rightarrow> bool" where
  "min_values_above x = (case MinValues x of None \<Rightarrow> False | Some m \<Rightarrow> 50 < m)"

text \<open>
  \<open>violations\<close> lists every check of the spec that does not pass, in the order of the
  struct's fields; \<open>validate_NodeClaimSpec\<close> accepts the spec when there is none.
\<close>

definition violations :: "(string \<Rightarrow> int cel) \<Rightarrow> NodeClaimSpec \<Rightarrow> ValidationError list" where
  "violations cel_int spec =
     (if rule_in_has_value (Requirements spec) then []
      else [XValidation ''requirements with operator 'In' must have a value defined'']) @
     (if rule_gt_lt_single_int cel_int (Requirements spec) then []
      else [XValidation
        ''requirements operator 'Gt' or 'Lt' must have a single positive integer value'']) @
     (if rule_min_values (Requirements spec) then []
      else [XValidation
        ''requirements with 'minValues' must have at least that many values specified in the 'values' field'']) @
     (if length (Requirements spec) \<le> 100 then [] else [MaxItems ''requirements'']) @
     (if list_ex min_values_below (Requirements spec) then [Minimum ''minValues''] else []) @
     (if list_ex min_values_above (Requirements spec) then [Maximum ''minValues''] else []) @
     (if NodeClassRef spec = None then [Required ''nodeClassRef''] else [])"

definition validate_NodeClaimSpec ::
  "(string \<Rightarrow> int cel) \<Rightarrow> NodeClaimSpec \<Rightarrow> ValidationError list + unit" where
  "validate_NodeClaimSpec cel_int spec =
     (case violations cel_int spec of [] \<Rightarrow> Inr () | e # es \<Rightarrow> Inl (e # es))"

text \<open>
  CEL's \<open>int(string)\<close> is Go's \<open>strconv.ParseInt(s, 10, 64)\<close>: an optional sign, then one
  or more decimal digits, and a value that fits 64 signed bits. This instance of the
  parameter \<open>cel_int\<close> evaluates the rules on concrete requirements.
\<close>

definition digit_of :: "char \<Rightarrow> nat option" where
  "digit_of c =
     (let n = (of_char c :: nat) in if 48 \<le> n \<and> n \<le> 57 then Some (n - 48) else None)"

fun digits_value :: "nat \<Rightarrow> string \<Rightarrow> nat option" where
  "digits_value acc [] = Some acc"
| "digits_value acc (c # cs) =
     (case digit_of c of None \<Rightarrow> None | Some d \<Rightarrow> digits_value (10 * acc + d) cs)"

definition ParseInt :: "string \<Rightarrow> int cel" where
  "ParseInt s =
     (let neg = (s \<noteq> [] \<and> hd s = CHR ''-'');
          ds = (if s \<noteq> [] \<and> (hd s = CHR ''-'' \<or> hd s = CHR ''+'') then tl s else s)
      in if ds = [] then Inl ConversionError
         else case digits_value 0 ds of
                None \<Rightarrow> Inl ConversionError
              | Some n \<Rightarrow>
                  let v = (if neg then - int n else int n)
                  in if - (2 ^ 63) \<le> v \<and> v < 2 ^ 63 then Inr v else Inl ConversionError)"

section \<open>Updates of a stored NodeClaim\<close>

text \<open>
  The rule on \<open>Spec\<close>, message "spec is immutable":
  \<^verbatim>\<open>self == oldSelf\<close>
  It is a transition rule: on an update, \<open>self\<close> is the proposed spec and \<open>oldSelf\<close> the
  stored one, and CEL's \<open>==\<close> on objects is deep equality.
\<close>

definition spec_is_immutable :: "NodeClaimSpec \<Rightarrow> NodeClaimSpec \<Rightarrow> bool cel" where
  "spec_is_immutable self oldSelf = Inr (self = oldSelf)"

text \<open>
  The marker \<open>+kubebuilder:subresource:status\<close> on \<open>NodeClaim\<close> gives the resource two
  update endpoints: the resource itself, and its status subresource.
\<close>

datatype endpoint = MainResource | StatusSubresource

text \<open>
  Modelled from the spec: the write path of the resource store is missing from the
  source, which declares only the rule on \<open>Spec\<close> and the status subresource. Before an
  update is validated, the store keeps from the request what the endpoint may write: an
  update of the resource cannot write \<open>Status\<close>, which stays as stored; an update of the
  status subresource writes \<open>Status\<close> alone, the rest of the object staying as stored.
\<close>

definition prepare_for_update ::
  "endpoint \<Rightarrow> ('meta, 'status) NodeClaim \<Rightarrow> ('meta, 'status) NodeClaim \<Rightarrow>
     ('meta, 'status) NodeClaim" where
  "prepare_for_update ep stored proposed =
     (case ep of
        MainResource \<Rightarrow> proposed\<lparr>Status := Status stored\<rparr>
      | StatusSubresource \<Rightarrow> stored\<lparr>Status := Status proposed\<rparr>)"

text \<open>
  Modelled from the spec: the write path of the resource store is missing from the
  source. An update request against the stored object gives the answer to the request
  and the object that is stored afterwards: the rule on \<open>Spec\<close> is evaluated on the
  prepared object, with the stored spec as \<open>oldSelf\<close>; a rejected write is synchronous and
  has no effect.
\<close>

definition update_NodeClaim ::
  "endpoint \<Rightarrow> ('meta, 'status) NodeClaim \<Rightarrow> ('meta, 'status) NodeClaim \<Rightarrow>
     ValidationError option \<times> ('meta, 'status) NodeClaim" where
  "update_NodeClaim ep stored proposed =
     (let obj = prepare_for_update ep stored proposed
      in if spec_is_immutable (Spec obj) (Spec stored) = Inr True then (None, obj)
         else (Some (XValidation ''spec is immutable''), stored))"

section \<open>The state controller of NodeClaims (package informer)\<close>

text \<open>
  \<open>reconcile.Request\<close> embeds \<open>types.NamespacedName\<close>; \<open>reconcile.Result\<close> has the fields
  \<open>Requeue\<close> and \<open>RequeueAfter\<close> (a \<open>time.Duration\<close>), and \<open>Result{}\<close> is their zero value.
\<close>

record NamespacedName =
  Namespace :: string
  Name :: string

record Request =
  NamespacedName :: NamespacedName

record Result =
  Requeue :: bool
  RequeueAfter :: int

definition Result_empty :: Result where
  "Result_empty = \<lparr>Requeue = False, RequeueAfter = 0\<rparr>"

text \<open>
  The controller holds a \<open>client.Client\<close> and a \<open>*state.Cluster\<close>. Every call on either is
  recorded, in order. The methods of \<open>client.Client\<close> are the reads \<open>Get\<close> and \<open>List\<close> and
  the writes \<open>Create\<close>, \<open>Delete\<close>, \<open>Update\<close>, \<open>Patch\<close>, \<open>DeleteAllOf\<close> and those of the
  status writer. The controller's NodeClaim is \<open>v1beta1.NodeClaim\<close>, the type parameter
  \<open>'nc\<close>; a Go error is a value of the type parameter \<open>'e\<close>.
\<close>

datatype 'nc kube_call =
  KubeGet NamespacedName
| KubeList
| KubeCreate 'nc
| KubeDelete 'nc
| KubeUpdate 'nc
| KubePatch 'nc
| KubeDeleteAllOf
| KubeStatusUpdate 'nc
| KubeStatusPatch 'nc

fun is_write :: "'nc kube_call \<Rightarrow> bool" where
  "is_write (KubeGet _) = False"
| "is_write KubeList = False"
| "is_write _ = True"

datatype 'nc cluster_call =
  DeleteNodeClaim string
| UpdateNodeClaim 'nc

text \<open>
  \<open>resource_store\<close> is what the resource store answers to a \<open>Get\<close> of each key at the time
  of the cycle: the object, or the error. \<open>DeleteNodeClaim\<close> and \<open>UpdateNodeClaim\<close> are
  methods of \<open>state.Cluster\<close>, defined in another package; the controller's call is
  recorded with its argument, and what the method then does to the cluster state is not
  part of the cycle's own code.
\<close>

record ('e, 'nc) world =
  resource_store :: "NamespacedName \<Rightarrow> 'e + 'nc"
  kube_calls :: "'nc kube_call list"
  cluster_calls :: "'nc cluster_call list"

definition kubeClient_Get ::
  "NamespacedName \<Rightarrow> ('e, 'nc) world \<Rightarrow> ('e + 'nc) \<times> ('e, 'nc) world" where
  "kubeClient_Get key w =
     (resource_store w key, w\<lparr>kube_calls := kube_calls w @ [KubeGet key]\<rparr>)"

definition cluster_DeleteNodeClaim :: "string \<Rightarrow> ('e, 'nc) world \<Rightarrow> ('e, 'nc) world" where
  "cluster_DeleteNodeClaim name w =
     w\<lparr>cluster_calls := cluster_calls w @ [DeleteNodeClaim name]\<rparr>"

definition cluster_UpdateNodeClaim :: "'nc \<Rightarrow> ('e, 'nc) world \<Rightarrow> ('e, 'nc) world" where
  "cluster_UpdateNodeClaim nodeClaim w =
     w\<lparr>cluster_calls := cluster_calls w @ [UpdateNodeClaim nodeClaim]\<rparr>"

text \<open>
  \<open>client.IgnoreNotFound\<close> returns nil for an error that \<open>errors.IsNotFound\<close> accepts, and
  the error itself otherwise. \<open>errors.IsNotFound\<close> belongs to apimachinery; it is the
  parameter \<open>IsNotFound\<close>.
\<close>

definition IgnoreNotFound :: "('e \<Rightarrow> bool) \<Rightarrow> 'e \<Rightarrow> 'e option" where
  "IgnoreNotFound IsNotFound err = (if IsNotFound err then None else Some err)"

text \<open>
  \<open>Reconcile\<close>. The constant \<open>stateRetryPeriod\<close> is declared in another file of the
  package; it is a parameter. The two statements that put a logger and the controller's
  name into the context have no effect on the result or on either collaborator.
\<close>

definition Reconcile ::
  "('e \<Rightarrow> bool) \<Rightarrow> int \<Rightarrow> ('e, 'nc) world \<Rightarrow> Request \<Rightarrow>
     (Result \<times> 'e option) \<times> ('e, 'nc) world" where
  "Reconcile IsNotFound stateRetryPeriod w req =
     (case kubeClient_Get (NamespacedName req) w of
        (Inl err, w1) \<Rightarrow>
          ((Result_empty, IgnoreNotFound IsNotFound err),
           (if IsNotFound err then cluster_DeleteNodeClaim (Name (NamespacedName req)) w1
            else w1))
      | (Inr nodeClaim, w1) \<Rightarrow>
          ((\<lparr>Requeue = False, RequeueAfter = stateRetryPeriod\<rparr>, None),
           cluster_UpdateNodeClaim nodeClaim w1))"

text \<open>
  \<open>Register\<close> builds the controller with the name \<open>state.nodeclaim\<close> and the options
  \<open>controller.Options{MaxConcurrentReconciles: 10}\<close>.
\<close>

record Options =
  Named :: string
  MaxConcurrentReconciles :: int

definition Register :: Options where
  "Register = \<lparr>Named = ''state.nodeclaim'', MaxConcurrentReconciles = 10\<rparr>"

section \<open>Facts about rule evaluation\<close>

lemma cel_and_True_iff: "cel_and a b = Inr True \<longleftrightarrow> a = Inr True \<and> b = Inr True"
  by (cases "(a, b)" rule: cel_and.cases) auto

lemma cel_all_True_iff: "cel_all p xs = Inr True \<longleftrightarrow> (\<forall>x \<in> set xs. p x = Inr True)"
  by (induction xs) (auto simp: cel_and_True_iff)

lemma in_has_value_iff:
  "in_has_value x = Inr True \<longleftrightarrow> (Operator x = ''In'' \<longrightarrow> Values x \<noteq> [])"
  by (simp add: in_has_value_def cel_cond_def cel_size_def)

lemma min_values_le_size_iff:
  "min_values_le_size x = Inr True \<longleftrightarrow>
     (Operator x = ''In'' \<longrightarrow> (\<forall>m. MinValues x = Some m \<longrightarrow> m \<le> cel_size (Values x)))"
  by (cases "MinValues x"; cases "Operator x = ''In''")
    (simp_all add: min_values_le_size_def cel_cond_def cel_bind_def)

lemma gt_lt_single_int_iff:
  "gt_lt_single_int cel_int x = Inr True \<longleftrightarrow>
     (Operator x = ''Gt'' \<or> Operator x = ''Lt'' \<longrightarrow>
        (\<exists>v n. Values x = [v] \<and> cel_int v = Inr n \<and> 0 \<le> n))"
proof (cases "Operator x = ''Gt'' \<or> Operator x = ''Lt''")
  case False
  then show ?thesis
    by (simp add: gt_lt_single_int_def cel_cond_def)
next
  case True
  then have c: "cel_or (Inr (Operator x = ''Gt'')) (Inr (Operator x = ''Lt'')) = Inr True"
    by auto
  have "(cel_size (Values x) = 1 \<and>
          cel_bind (cel_bind (cel_index (Values x) 0) cel_int) (\<lambda>n. Inr (0 \<le> n)) = Inr True)
        \<longleftrightarrow> (\<exists>v n. Values x = [v] \<and> cel_int v = Inr n \<and> 0 \<le> n)"
  proof (cases "Values x")
    case Nil
    then show ?thesis by (simp add: cel_size_def)
  next
    case (Cons v vs)
    then show ?thesis
      by (cases "cel_int v") (auto simp: cel_size_def cel_bind_def cel_index_def)
  qed
  with True c show ?thesis
    by (simp add: gt_lt_single_int_def cel_cond_def cel_and_True_iff)
qed

lemma validate_ok_iff:
  "validate_NodeClaimSpec cel_int spec = Inr () \<longleftrightarrow> violations cel_int spec = []"
  by (simp add: validate_NodeClaimSpec_def split: list.splits)

lemma violations_Nil_iff:
  "violations cel_int spec = [] \<longleftrightarrow>
     rule_in_has_value (Requirements spec) \<and>
     rule_gt_lt_single_int cel_int (Requirements spec) \<and>
     rule_min_values (Requirements spec) \<and>
     length (Requirements spec) \<le> 100 \<and>
     \<not> list_ex min_values_below (Requirements spec) \<and>
     \<not> list_ex min_values_above (Requirements spec) \<and>
     NodeClassRef spec \<noteq> None"
  by (simp add: violations_def)

lemma requirement_rules_of_valid:
  assumes "validate_NodeClaimSpec cel_int spec = Inr ()" and "r \<in> set (Requirements spec)"
  shows "in_has_value r = Inr True"
    and "gt_lt_single_int cel_int r = Inr True"
    and "min_values_le_size r = Inr True"
  using assms
  by (simp_all add: validate_ok_iff violations_Nil_iff rule_in_has_value_def
      rule_gt_lt_single_int_def rule_min_values_def cel_all_True_iff)

lemma ParseInt_0: "ParseInt ''0'' = Inr 0"
  by (simp add: ParseInt_def digit_of_def)

lemma ParseInt_minus_1: "ParseInt ''-1'' = Inr (- 1)"
  by (simp add: ParseInt_def digit_of_def)

lemmas validate_unfold =
  validate_NodeClaimSpec_def violations_def rule_in_has_value_def rule_gt_lt_single_int_def
  rule_min_values_def in_has_value_def gt_lt_single_int_def min_values_le_size_def
  cel_cond_def cel_bind_def cel_index_def cel_size_def min_values_below_def
  min_values_above_def

lemma Reconcile_Inl:
  assumes "resource_store w (NamespacedName req) = Inl err"
  shows "Reconcile IsNotFound p w req =
     ((Result_empty, IgnoreNotFound IsNotFound err),
      (if IsNotFound err
       then cluster_DeleteNodeClaim (Name (NamespacedName req))
              (w\<lparr>kube_calls := kube_calls w @ [KubeGet (NamespacedName req)]\<rparr>)
       else w\<lparr>kube_calls := kube_calls w @ [KubeGet (NamespacedName req)]\<rparr>))"
  using assms by (simp add: Reconcile_def kubeClient_Get_def)

lemma Reconcile_Inr:
  assumes "resource_store w (NamespacedName req) = Inr nodeClaim"
  shows "Reconcile IsNotFound p w req =
     ((\<lparr>Requeue = False, RequeueAfter = p\<rparr>, None),
      cluster_UpdateNodeClaim nodeClaim
        (w\<lparr>kube_calls := kube_calls w @ [KubeGet (NamespacedName req)]\<rparr>))"
  using assms by (simp add: Reconcile_def kubeClient_Get_def)

section \<open>The claims about validation\<close>

text \<open>
  C1, as stated, fails: a requirement with \<open>minValues\<close> set and the operator \<open>NotIn\<close>
  passes validation, although its operator is not \<open>In\<close>. The spec below holds one such
  requirement and is accepted.
\<close>

theorem minValues_operator_NotIn_counterexample:
  "validate_NodeClaimSpec ParseInt
     \<lparr>Taints = [], StartupTaints = [],
      Requirements =
        [\<lparr>Key = ''zone'', Operator = ''NotIn'', Values = [''a''], MinValues = Some 1\<rparr>],
      Resources = \<lparr>Requests = Map.empty\<rparr>,
      NodeClassRef = Some (NodeClassReference ''NodeClass'' ''default'' ''example.sh'')\<rparr>
   = Inr () \<and>
   MinValues \<lparr>Key = ''zone'', Operator = ''NotIn'', Values = [''a''], MinValues = Some 1\<rparr>
   = Some 1 \<and>
   Operator \<lparr>Key = ''zone'', Operator = ''NotIn'', Values = [''a''], MinValues = Some 1\<rparr>
   \<noteq> ''In''"
  by (simp add: validate_unfold)

text \<open>
  C1, as amended: for every NodeClaim spec and every requirement in it that has
  \<open>minValues\<close> set, the \<open>minValues\<close> rule rejects the requirement if and only if its
  operator is \<open>In\<close> and the size of its values list is strictly less than \<open>minValues\<close>;
  and when both hold, validation of the spec fails.
\<close>

theorem minValues_rule_In_only:
  assumes "r \<in> set (Requirements spec)" and "MinValues r = Some m"
  shows "(min_values_le_size r \<noteq> Inr True \<longleftrightarrow>
            Operator r = ''In'' \<and> cel_size (Values r) < m) \<and>
         (Operator r = ''In'' \<and> cel_size (Values r) < m \<longrightarrow>
            validate_NodeClaimSpec cel_int spec \<noteq> Inr ())"
proof -
  have rule: "min_values_le_size r \<noteq> Inr True \<longleftrightarrow>
      Operator r = ''In'' \<and> cel_size (Values r) < m"
    using assms(2) by (auto simp: min_values_le_size_iff)
  have "validate_NodeClaimSpec cel_int spec \<noteq> Inr ()"
    if "Operator r = ''In'' \<and> cel_size (Values r) < m"
    using that rule requirement_rules_of_valid(3) [OF _ assms(1)] by blast
  with rule show ?thesis by blast
qed

theorem minValues_rule_In_only_witness:
  "validate_NodeClaimSpec ParseInt
     \<lparr>Taints = [], StartupTaints = [],
      Requirements =
        [\<lparr>Key = ''zone'', Operator = ''In'', Values = [''a'', ''b''], MinValues = Some 3\<rparr>],
      Resources = \<lparr>Requests = Map.empty\<rparr>,
      NodeClassRef = Some (NodeClassReference ''NodeClass'' ''default'' ''example.sh'')\<rparr>
   \<noteq> Inr () \<and>
   min_values_le_size
     \<lparr>Key = ''zone'', Operator = ''In'', Values = [''a'', ''b''], MinValues = Some 3\<rparr>
   \<noteq> Inr True"
  using minValues_rule_In_only [of
      "\<lparr>Key = ''zone'', Operator = ''In'', Values = [''a'', ''b''], MinValues = Some 3\<rparr>"
      "\<lparr>Taints = [], StartupTaints = [],
        Requirements =
          [\<lparr>Key = ''zone'', Operator = ''In'', Values = [''a'', ''b''], MinValues = Some 3\<rparr>],
        Resources = \<lparr>Requests = Map.empty\<rparr>,
        NodeClassRef = Some (NodeClassReference ''NodeClass'' ''default'' ''example.sh'')\<rparr>"
      3 ParseInt]
  by (simp add: cel_size_def)

text \<open>
  C5, as stated, fails: a spec can fail validation on a requirement whose operator is
  \<open>In\<close> and whose values list is not empty. The requirement below has two values and
  \<open>minValues\<close> 3, and the spec is rejected.
\<close>

theorem In_values_nonempty_counterexample:
  "validate_NodeClaimSpec ParseInt
     \<lparr>Taints = [], StartupTaints = [],
      Requirements =
        [\<lparr>Key = ''zone'', Operator = ''In'', Values = [''a'', ''b''], MinValues = Some 3\<rparr>],
      Resources = \<lparr>Requests = Map.empty\<rparr>,
      NodeClassRef = Some (NodeClassReference ''NodeClass'' ''default'' ''example.sh'')\<rparr>
   = Inl [XValidation
       ''requirements with 'minValues' must have at least that many values specified in the 'values' field''] \<and>
   Operator \<lparr>Key = ''zone'', Operator = ''In'', Values = [''a'', ''b''], MinValues = Some 3\<rparr>
   = ''In'' \<and>
   Values \<lparr>Key = ''zone'', Operator = ''In'', Values = [''a'', ''b''], MinValues = Some 3\<rparr>
   \<noteq> []"
  by (simp add: validate_unfold)

text \<open>
  C5, as amended: for every NodeClaim spec and every requirement in it whose operator is
  \<open>In\<close>, validation of the spec fails if that requirement's values list is empty, and the
  rule "requirements with operator 'In' must have a value defined" rejects the
  requirement if and only if its values list is empty.
\<close>

theorem In_rule_empty_values:
  assumes "r \<in> set (Requirements spec)" and "Operator r = ''In''"
  shows "(Values r = [] \<longrightarrow> validate_NodeClaimSpec cel_int spec \<noteq> Inr ()) \<and>
         (in_has_value r \<noteq> Inr True \<longleftrightarrow> Values r = [])"
proof -
  have rule: "in_has_value r \<noteq> Inr True \<longleftrightarrow> Values r = []"
    using assms(2) by (simp add: in_has_value_iff)
  have "validate_NodeClaimSpec cel_int spec \<noteq> Inr ()" if "Values r = []"
    using that rule requirement_rules_of_valid(1) [OF _ assms(1)] by blast
  with rule show ?thesis by blast
qed

theorem In_rule_empty_values_witness:
  "validate_NodeClaimSpec ParseInt
     \<lparr>Taints = [], StartupTaints = [],
      Requirements = [\<lparr>Key = ''zone'', Operator = ''In'', Values = [], MinValues = None\<rparr>],
      Resources = \<lparr>Requests = Map.empty\<rparr>,
      NodeClassRef = Some (NodeClassReference ''NodeClass'' ''default'' ''example.sh'')\<rparr>
   \<noteq> Inr () \<and>
   in_has_value \<lparr>Key = ''zone'', Operator = ''In'', Values = [], MinValues = None\<rparr>
   \<noteq> Inr True"
  using In_rule_empty_values [of
      "\<lparr>Key = ''zone'', Operator = ''In'', Values = [], MinValues = None\<rparr>"
      "\<lparr>Taints = [], StartupTaints = [],
        Requirements = [\<lparr>Key = ''zone'', Operator = ''In'', Values = [], MinValues = None\<rparr>],
        Resources = \<lparr>Requests = Map.empty\<rparr>,
        NodeClassRef = Some (NodeClassReference ''NodeClass'' ''default'' ''example.sh'')\<rparr>"
      ParseInt]
  by simp

text \<open>
  C6: for every NodeClaim spec and every requirement in it whose operator is \<open>Gt\<close> or
  \<open>Lt\<close>, validation of the spec fails unless that requirement's values list has exactly
  one element and that element converts to an integer \<open>n\<close> with \<open>0 \<le> n\<close>, so that zero
  is accepted. The rule itself accepts the requirement exactly in that case.
\<close>

theorem Gt_Lt_single_nonnegative_integer:
  assumes "r \<in> set (Requirements spec)" and "Operator r = ''Gt'' \<or> Operator r = ''Lt''"
  shows "(\<not> (\<exists>v n. Values r = [v] \<and> cel_int v = Inr n \<and> 0 \<le> n) \<longrightarrow>
            validate_NodeClaimSpec cel_int spec \<noteq> Inr ()) \<and>
         (gt_lt_single_int cel_int r = Inr True \<longleftrightarrow>
            (\<exists>v n. Values r = [v] \<and> cel_int v = Inr n \<and> 0 \<le> n))"
proof -
  have rule: "gt_lt_single_int cel_int r = Inr True \<longleftrightarrow>
      (\<exists>v n. Values r = [v] \<and> cel_int v = Inr n \<and> 0 \<le> n)"
    using assms(2) by (simp add: gt_lt_single_int_iff)
  have "validate_NodeClaimSpec cel_int spec \<noteq> Inr ()"
    if "\<not> (\<exists>v n. Values r = [v] \<and> cel_int v = Inr n \<and> 0 \<le> n)"
    using that rule requirement_rules_of_valid(2) [OF _ assms(1)] by blast
  with rule show ?thesis by blast
qed

theorem Gt_Lt_single_nonnegative_integer_witness:
  "validate_NodeClaimSpec ParseInt
     \<lparr>Taints = [], StartupTaints = [],
      Requirements = [\<lparr>Key = ''cpu'', Operator = ''Gt'', Values = [''-1''], MinValues = None\<rparr>],
      Resources = \<lparr>Requests = Map.empty\<rparr>,
      NodeClassRef = Some (NodeClassReference ''NodeClass'' ''default'' ''example.sh'')\<rparr>
   \<noteq> Inr () \<and>
   gt_lt_single_int ParseInt
     \<lparr>Key = ''cpu'', Operator = ''Lt'', Values = [''0''], MinValues = None\<rparr>
   = Inr True"
proof -
  have neg: "\<not> (\<exists>v n. [''-1''] = [v] \<and> ParseInt v = Inr n \<and> 0 \<le> n)"
    by (simp add: ParseInt_minus_1)
  have zero: "\<exists>v n. [''0''] = [v] \<and> ParseInt v = Inr n \<and> 0 \<le> n"
    by (simp add: ParseInt_0)
  show ?thesis
    using neg zero
      Gt_Lt_single_nonnegative_integer [of
        "\<lparr>Key = ''cpu'', Operator = ''Gt'', Values = [''-1''], MinValues = None\<rparr>"
        "\<lparr>Taints = [], StartupTaints = [],
          Requirements =
            [\<lparr>Key = ''cpu'', Operator = ''Gt'', Values = [''-1''], MinValues = None\<rparr>],
          Resources = \<lparr>Requests = Map.empty\<rparr>,
          NodeClassRef = Some (NodeClassReference ''NodeClass'' ''default'' ''example.sh'')\<rparr>"
        ParseInt]
      Gt_Lt_single_nonnegative_integer [of
        "\<lparr>Key = ''cpu'', Operator = ''Lt'', Values = [''0''], MinValues = None\<rparr>"
        "\<lparr>Taints = [], StartupTaints = [],
          Requirements =
            [\<lparr>Key = ''cpu'', Operator = ''Lt'', Values = [''0''], MinValues = None\<rparr>],
          Resources = \<lparr>Requests = Map.empty\<rparr>,
          NodeClassRef = Some (NodeClassReference ''NodeClass'' ''default'' ''example.sh'')\<rparr>"
        ParseInt]
    by simp
qed

text \<open>
  C7, as stated, fails: an update through the status subresource that proposes a spec
  different from the stored one is not rejected. The request below proposes a new taint
  and a new status; it is accepted, the proposed spec is dropped and the status stored.
\<close>

theorem status_update_other_spec_counterexample:
  "update_NodeClaim StatusSubresource
     \<lparr>ObjectMeta = ''ng-1'',
      Spec = \<lparr>Taints = [], StartupTaints = [], Requirements = [],
              Resources = \<lparr>Requests = Map.empty\<rparr>,
              NodeClassRef = Some (NodeClassReference ''NodeClass'' ''default'' ''example.sh'')\<rparr>,
      Status = ''Pending''\<rparr>
     \<lparr>ObjectMeta = ''ng-1'',
      Spec = \<lparr>Taints = [Taint ''dedicated'' ''gpu'' ''NoSchedule''], StartupTaints = [],
              Requirements = [],
              Resources = \<lparr>Requests = Map.empty\<rparr>,
              NodeClassRef = Some (NodeClassReference ''NodeClass'' ''default'' ''example.sh'')\<rparr>,
      Status = ''Ready''\<rparr>
   = (None,
      \<lparr>ObjectMeta = ''ng-1'',
      Spec = \<lparr>Taints = [], StartupTaints = [], Requirements = [],
              Resources = \<lparr>Requests = Map.empty\<rparr>,
              NodeClassRef = Some (NodeClassReference ''NodeClass'' ''default'' ''example.sh'')\<rparr>,
      Status = ''Ready''\<rparr>) \<and>
   Spec \<lparr>ObjectMeta = ''ng-1'',
      Spec = \<lparr>Taints = [Taint ''dedicated'' ''gpu'' ''NoSchedule''], StartupTaints = [],
              Requirements = [],
              Resources = \<lparr>Requests = Map.empty\<rparr>,
              NodeClassRef = Some (NodeClassReference ''NodeClass'' ''default'' ''example.sh'')\<rparr>,
      Status = ''Ready''\<rparr>
   \<noteq> Spec \<lparr>ObjectMeta = ''ng-1'',
      Spec = \<lparr>Taints = [], StartupTaints = [], Requirements = [],
              Resources = \<lparr>Requests = Map.empty\<rparr>,
              NodeClassRef = Some (NodeClassReference ''NodeClass'' ''default'' ''example.sh'')\<rparr>,
      Status = ''Pending''\<rparr>"
  by (simp add: update_NodeClaim_def prepare_for_update_def spec_is_immutable_def)

text \<open>
  C7, as amended: for every stored NodeClaim with spec \<open>S\<close> and every update request
  through the resource's own endpoint that proposes a spec \<open>S'\<close> not equal to \<open>S\<close>, the
  update is rejected with the error of the rule "spec is immutable" and the stored
  object is unchanged; such an update whose proposed spec equals \<open>S\<close> is not rejected
  by the rule, and stores the proposed object with the stored status. An update through
  the status subresource is never rejected by the rule: it stores the proposed status
  and nothing else. Through either endpoint the stored spec remains \<open>S\<close>.
\<close>

theorem spec_immutable_by_endpoint:
  "(Spec proposed \<noteq> Spec stored \<longrightarrow>
      update_NodeClaim MainResource stored proposed =
        (Some (XValidation ''spec is immutable''), stored)) \<and>
   (Spec proposed = Spec stored \<longrightarrow>
      update_NodeClaim MainResource stored proposed =
        (None, proposed\<lparr>Status := Status stored\<rparr>)) \<and>
   update_NodeClaim StatusSubresource stored proposed =
     (None, stored\<lparr>Status := Status proposed\<rparr>) \<and>
   Spec (snd (update_NodeClaim ep stored proposed)) = Spec stored"
proof -
  have main_ne: "update_NodeClaim MainResource stored proposed =
      (Some (XValidation ''spec is immutable''), stored)"
    if "Spec proposed \<noteq> Spec stored"
    using that by (simp add: update_NodeClaim_def prepare_for_update_def spec_is_immutable_def)
  have main_eq: "update_NodeClaim MainResource stored proposed =
      (None, proposed\<lparr>Status := Status stored\<rparr>)"
    if "Spec proposed = Spec stored"
    using that by (simp add: update_NodeClaim_def prepare_for_update_def spec_is_immutable_def)
  have status: "update_NodeClaim StatusSubresource stored proposed =
      (None, stored\<lparr>Status := Status proposed\<rparr>)"
    by (simp add: update_NodeClaim_def prepare_for_update_def spec_is_immutable_def)
  have "Spec (snd (update_NodeClaim ep stored proposed)) = Spec stored"
  proof (cases ep)
    case MainResource
    then show ?thesis
      using main_ne main_eq by (cases "Spec proposed = Spec stored") simp_all
  next
    case StatusSubresource
    then show ?thesis using status by simp
  qed
  with main_ne main_eq status show ?thesis by blast
qed

theorem spec_immutable_by_endpoint_witness:
  "update_NodeClaim MainResource
     \<lparr>ObjectMeta = ''ng-1'',
      Spec = \<lparr>Taints = [], StartupTaints = [], Requirements = [],
              Resources = \<lparr>Requests = Map.empty\<rparr>,
              NodeClassRef = Some (NodeClassReference ''NodeClass'' ''default'' ''example.sh'')\<rparr>,
      Status = ''Pending''\<rparr>
     \<lparr>ObjectMeta = ''ng-1'',
      Spec = \<lparr>Taints = [Taint ''dedicated'' ''gpu'' ''NoSchedule''], StartupTaints = [],
              Requirements = [],
              Resources = \<lparr>Requests = Map.empty\<rparr>,
              NodeClassRef = Some (NodeClassReference ''NodeClass'' ''default'' ''example.sh'')\<rparr>,
      Status = ''Ready''\<rparr>
   = (Some (XValidation ''spec is immutable''),
      \<lparr>ObjectMeta = ''ng-1'',
      Spec = \<lparr>Taints = [], StartupTaints = [], Requirements = [],
              Resources = \<lparr>Requests = Map.empty\<rparr>,
              NodeClassRef = Some (NodeClassReference ''NodeClass'' ''default'' ''example.sh'')\<rparr>,
      Status = ''Pending''\<rparr>) \<and>
   update_NodeClaim MainResource
     \<lparr>ObjectMeta = ''ng-1'',
      Spec = \<lparr>Taints = [], StartupTaints = [], Requirements = [],
              Resources = \<lparr>Requests = Map.empty\<rparr>,
              NodeClassRef = Some (NodeClassReference ''NodeClass'' ''default'' ''example.sh'')\<rparr>,
      Status = ''Pending''\<rparr>
     \<lparr>ObjectMeta = ''ng-1'',
      Spec = \<lparr>Taints = [], StartupTaints = [], Requirements = [],
              Resources = \<lparr>Requests = Map.empty\<rparr>,
              NodeClassRef = Some (NodeClassReference ''NodeClass'' ''default'' ''example.sh'')\<rparr>,
      Status = ''Ready''\<rparr>
   = (None,
      \<lparr>ObjectMeta = ''ng-1'',
      Spec = \<lparr>Taints = [], StartupTaints = [], Requirements = [],
              Resources = \<lparr>Requests = Map.empty\<rparr>,
              NodeClassRef = Some (NodeClassReference ''NodeClass'' ''default'' ''example.sh'')\<rparr>,
      Status = ''Pending''\<rparr>)"
  using
    spec_immutable_by_endpoint [of
      "\<lparr>ObjectMeta = ''ng-1'',
      Spec = \<lparr>Taints = [Taint ''dedicated'' ''gpu'' ''NoSchedule''], StartupTaints = [],
              Requirements = [],
              Resources = \<lparr>Requests = Map.empty\<rparr>,
              NodeClassRef = Some (NodeClassReference ''NodeClass'' ''default'' ''example.sh'')\<rparr>,
      Status = ''Ready''\<rparr>"
      "\<lparr>ObjectMeta = ''ng-1'',
      Spec = \<lparr>Taints = [], StartupTaints = [], Requirements = [],
              Resources = \<lparr>Requests = Map.empty\<rparr>,
              NodeClassRef = Some (NodeClassReference ''NodeClass'' ''default'' ''example.sh'')\<rparr>,
      Status = ''Pending''\<rparr>"]
    spec_immutable_by_endpoint [of
      "\<lparr>ObjectMeta = ''ng-1'',
      Spec = \<lparr>Taints = [], StartupTaints = [], Requirements = [],
              Resources = \<lparr>Requests = Map.empty\<rparr>,
              NodeClassRef = Some (NodeClassReference ''NodeClass'' ''default'' ''example.sh'')\<rparr>,
      Status = ''Ready''\<rparr>"
      "\<lparr>ObjectMeta = ''ng-1'',
      Spec = \<lparr>Taints = [], StartupTaints = [], Requirements = [],
              Resources = \<lparr>Requests = Map.empty\<rparr>,
              NodeClassRef = Some (NodeClassReference ''NodeClass'' ''default'' ''example.sh'')\<rparr>,
      Status = ''Pending''\<rparr>"]
  by simp

section \<open>The claims about the reconciliation cycle\<close>

text \<open>
  C2: for every reconciliation cycle keyed by a NodeClaim name, if the fetch from the
  resource store reports not-found, then \<open>DeleteNodeClaim\<close> is invoked on the cluster
  state exactly once, with that name, \<open>UpdateNodeClaim\<close> is not invoked, and the cycle
  returns no error.
\<close>

theorem Reconcile_not_found_deletes:
  assumes "resource_store w (NamespacedName req) = Inl err" and "IsNotFound err"
  shows "cluster_calls (snd (Reconcile IsNotFound stateRetryPeriod w req)) =
           cluster_calls w @ [DeleteNodeClaim (Name (NamespacedName req))] \<and>
         snd (fst (Reconcile IsNotFound stateRetryPeriod w req)) = None"
  using assms
  by (simp add: Reconcile_Inl cluster_DeleteNodeClaim_def IgnoreNotFound_def)

theorem Reconcile_not_found_deletes_witness:
  "cluster_calls (snd (Reconcile (\<lambda>e. e = ''NotFound'') 60000000000
     \<lparr>resource_store = (\<lambda>k. Inl ''NotFound''), kube_calls = [],
      cluster_calls = ([] :: string cluster_call list)\<rparr>
     \<lparr>NamespacedName = \<lparr>Namespace = [], Name = ''ng-1''\<rparr>\<rparr>))
   = [DeleteNodeClaim ''ng-1''] \<and>
   snd (fst (Reconcile (\<lambda>e. e = ''NotFound'') 60000000000
     \<lparr>resource_store = (\<lambda>k. Inl ''NotFound''), kube_calls = [],
      cluster_calls = ([] :: string cluster_call list)\<rparr>
     \<lparr>NamespacedName = \<lparr>Namespace = [], Name = ''ng-1''\<rparr>\<rparr>))
   = None"
  using Reconcile_not_found_deletes [of
      "\<lparr>resource_store = (\<lambda>k. Inl ''NotFound''), kube_calls = [],
        cluster_calls = ([] :: string cluster_call list)\<rparr>"
      "\<lparr>NamespacedName = \<lparr>Namespace = [], Name = ''ng-1''\<rparr>\<rparr>"
      "''NotFound''" "\<lambda>e. e = ''NotFound''" 60000000000]
  by simp

text \<open>
  C3: for every reconciliation cycle in which the fetch from the resource store fails
  with an error other than not-found, the cycle returns that error and invokes neither
  \<open>UpdateNodeClaim\<close> nor \<open>DeleteNodeClaim\<close> on the cluster state.
\<close>

theorem Reconcile_other_error_propagates:
  assumes "resource_store w (NamespacedName req) = Inl err" and "\<not> IsNotFound err"
  shows "snd (fst (Reconcile IsNotFound stateRetryPeriod w req)) = Some err \<and>
         cluster_calls (snd (Reconcile IsNotFound stateRetryPeriod w req)) = cluster_calls w"
  using assms
  by (simp add: Reconcile_Inl IgnoreNotFound_def)

theorem Reconcile_other_error_propagates_witness:
  "snd (fst (Reconcile (\<lambda>e. e = ''NotFound'') 60000000000
     \<lparr>resource_store = (\<lambda>k. Inl ''Timeout''), kube_calls = [],
      cluster_calls = [UpdateNodeClaim ''ng-1 v1'']\<rparr>
     \<lparr>NamespacedName = \<lparr>Namespace = [], Name = ''ng-1''\<rparr>\<rparr>))
   = Some ''Timeout'' \<and>
   cluster_calls (snd (Reconcile (\<lambda>e. e = ''NotFound'') 60000000000
     \<lparr>resource_store = (\<lambda>k. Inl ''Timeout''), kube_calls = [],
      cluster_calls = [UpdateNodeClaim ''ng-1 v1'']\<rparr>
     \<lparr>NamespacedName = \<lparr>Namespace = [], Name = ''ng-1''\<rparr>\<rparr>))
   = [UpdateNodeClaim ''ng-1 v1'']"
  using Reconcile_other_error_propagates [of
      "\<lparr>resource_store = (\<lambda>k. Inl ''Timeout''), kube_calls = [],
        cluster_calls = [UpdateNodeClaim ''ng-1 v1'']\<rparr>"
      "\<lparr>NamespacedName = \<lparr>Namespace = [], Name = ''ng-1''\<rparr>\<rparr>"
      "''Timeout''" "\<lambda>e. e = ''NotFound''" 60000000000]
  by simp

text \<open>
  C4: for every reconciliation cycle in which the fetch from the resource store
  succeeds, \<open>UpdateNodeClaim\<close> is invoked on the cluster state exactly once, with the
  fetched NodeClaim, the result asks for a requeue after \<open>stateRetryPeriod\<close> (a delay
  when the period is positive), and no error is returned.
\<close>

theorem Reconcile_found_upserts:
  assumes "resource_store w (NamespacedName req) = Inr nodeClaim"
  shows "cluster_calls (snd (Reconcile IsNotFound stateRetryPeriod w req)) =
           cluster_calls w @ [UpdateNodeClaim nodeClaim] \<and>
         fst (fst (Reconcile IsNotFound stateRetryPeriod w req)) =
           \<lparr>Requeue = False, RequeueAfter = stateRetryPeriod\<rparr> \<and>
         (0 < stateRetryPeriod \<longrightarrow>
            0 < RequeueAfter (fst (fst (Reconcile IsNotFound stateRetryPeriod w req)))) \<and>
         snd (fst (Reconcile IsNotFound stateRetryPeriod w req)) = None"
  using assms
  by (simp add: Reconcile_Inr cluster_UpdateNodeClaim_def)

theorem Reconcile_found_upserts_witness:
  "cluster_calls (snd (Reconcile (\<lambda>e. e = ''NotFound'') 60000000000
     \<lparr>resource_store = (\<lambda>k. Inr ''ng-1 v2'' :: string + string), kube_calls = [],
      cluster_calls = [UpdateNodeClaim ''ng-1 v1'']\<rparr>
     \<lparr>NamespacedName = \<lparr>Namespace = [], Name = ''ng-1''\<rparr>\<rparr>))
   = [UpdateNodeClaim ''ng-1 v1'', UpdateNodeClaim ''ng-1 v2''] \<and>
   fst (Reconcile (\<lambda>e. e = ''NotFound'') 60000000000
     \<lparr>resource_store = (\<lambda>k. Inr ''ng-1 v2'' :: string + string), kube_calls = [],
      cluster_calls = [UpdateNodeClaim ''ng-1 v1'']\<rparr>
     \<lparr>NamespacedName = \<lparr>Namespace = [], Name = ''ng-1''\<rparr>\<rparr>)
   = (\<lparr>Requeue = False, RequeueAfter = 60000000000\<rparr>, None)"
  using Reconcile_found_upserts [of
      "\<lparr>resource_store = (\<lambda>k. Inr ''ng-1 v2'' :: string + string), kube_calls = [],
        cluster_calls = [UpdateNodeClaim ''ng-1 v1'']\<rparr>"
      "\<lparr>NamespacedName = \<lparr>Namespace = [], Name = ''ng-1''\<rparr>\<rparr>"
      "''ng-1 v2''" "\<lambda>e. e = ''NotFound''" 60000000000]
  by (simp add: prod_eq_iff)

text \<open>
  C8: for every reconciliation cycle, whatever the fetch answers, the controller's only
  call on the resource store is one \<open>Get\<close> of the request's key: the store answers as
  before, and no \<open>Create\<close>, \<open>Update\<close>, \<open>Patch\<close>, \<open>Delete\<close> or status write is added to the
  calls on the client.
\<close>

theorem Reconcile_reads_only:
  "resource_store (snd (Reconcile IsNotFound stateRetryPeriod w req)) = resource_store w \<and>
   kube_calls (snd (Reconcile IsNotFound stateRetryPeriod w req)) =
     kube_calls w @ [KubeGet (NamespacedName req)] \<and>
   filter is_write (kube_calls (snd (Reconcile IsNotFound stateRetryPeriod w req))) =
     filter is_write (kube_calls w)"
  by (cases "resource_store w (NamespacedName req)")
    (simp_all add: Reconcile_Inl Reconcile_Inr cluster_DeleteNodeClaim_def
      cluster_UpdateNodeClaim_def)

theorem Reconcile_reads_only_witness:
  "kube_calls (snd (Reconcile (\<lambda>e. e = ''NotFound'') 60000000000
     \<lparr>resource_store = (\<lambda>k. Inl ''NotFound''),
      kube_calls = [KubeCreate ''ng-1 v1''],
      cluster_calls = []\<rparr>
     \<lparr>NamespacedName = \<lparr>Namespace = [], Name = ''ng-1''\<rparr>\<rparr>))
   = [KubeCreate ''ng-1 v1'', KubeGet \<lparr>Namespace = [], Name = ''ng-1''\<rparr>] \<and>
   filter is_write (kube_calls (snd (Reconcile (\<lambda>e. e = ''NotFound'') 60000000000
     \<lparr>resource_store = (\<lambda>k. Inl ''NotFound''),
      kube_calls = [KubeCreate ''ng-1 v1''],
      cluster_calls = []\<rparr>
     \<lparr>NamespacedName = \<lparr>Namespace = [], Name = ''ng-1''\<rparr>\<rparr>)))
   = [KubeCreate ''ng-1 v1'']"
  using Reconcile_reads_only [of "\<lambda>e. e = ''NotFound''" 60000000000
      "\<lparr>resource_store = (\<lambda>k. Inl ''NotFound''),
        kube_calls = [KubeCreate ''ng-1 v1''],
        cluster_calls = []\<rparr>"
      "\<lparr>NamespacedName = \<lparr>Namespace = [], Name = ''ng-1''\<rparr>\<rparr>"]
  by simp

text \<open>
  C10: for every reconciliation cycle in which the fetch reports not-found, the cycle
  deletes and returns the empty result, with no requeue and no requeue delay; and a
  result that asks for a requeue or a requeue delay comes only from a cycle whose fetch
  succeeded and which invoked \<open>UpdateNodeClaim\<close>.
\<close>

theorem Reconcile_requeue_only_after_upsert:
  "(resource_store w (NamespacedName req) = Inl err \<and> IsNotFound err \<longrightarrow>
      fst (fst (Reconcile IsNotFound stateRetryPeriod w req)) =
        \<lparr>Requeue = False, RequeueAfter = 0\<rparr> \<and>
      cluster_calls (snd (Reconcile IsNotFound stateRetryPeriod w req)) =
        cluster_calls w @ [DeleteNodeClaim (Name (NamespacedName req))]) \<and>
   (Requeue (fst (fst (Reconcile IsNotFound stateRetryPeriod w req))) \<or>
    RequeueAfter (fst (fst (Reconcile IsNotFound stateRetryPeriod w req))) \<noteq> 0 \<longrightarrow>
      (\<exists>nodeClaim. resource_store w (NamespacedName req) = Inr nodeClaim \<and>
         cluster_calls (snd (Reconcile IsNotFound stateRetryPeriod w req)) =
           cluster_calls w @ [UpdateNodeClaim nodeClaim]))"
  by (cases "resource_store w (NamespacedName req)")
    (simp_all add: Reconcile_Inl Reconcile_Inr Result_empty_def cluster_DeleteNodeClaim_def
      cluster_UpdateNodeClaim_def)

theorem Reconcile_requeue_only_after_upsert_witness:
  "fst (fst (Reconcile (\<lambda>e. e = ''NotFound'') 60000000000
     \<lparr>resource_store = (\<lambda>k. Inl ''NotFound''), kube_calls = [],
      cluster_calls = [UpdateNodeClaim ''ng-1 v1'']\<rparr>
     \<lparr>NamespacedName = \<lparr>Namespace = [], Name = ''ng-1''\<rparr>\<rparr>))
   = \<lparr>Requeue = False, RequeueAfter = 0\<rparr> \<and>
   cluster_calls (snd (Reconcile (\<lambda>e. e = ''NotFound'') 60000000000
     \<lparr>resource_store = (\<lambda>k. Inl ''NotFound''), kube_calls = [],
      cluster_calls = [UpdateNodeClaim ''ng-1 v1'']\<rparr>
     \<lparr>NamespacedName = \<lparr>Namespace = [], Name = ''ng-1''\<rparr>\<rparr>))
   = [UpdateNodeClaim ''ng-1 v1'', DeleteNodeClaim ''ng-1''] \<and>
   RequeueAfter (fst (fst (Reconcile (\<lambda>e. e = ''NotFound'') 60000000000
     \<lparr>resource_store = (\<lambda>k. Inr ''ng-1 v2'' :: string + string), kube_calls = [],
      cluster_calls = [UpdateNodeClaim ''ng-1 v1'']\<rparr>
     \<lparr>NamespacedName = \<lparr>Namespace = [], Name = ''ng-1''\<rparr>\<rparr>)))
   = 60000000000 \<and>
   cluster_calls (snd (Reconcile (\<lambda>e. e = ''NotFound'') 60000000000
     \<lparr>resource_store = (\<lambda>k. Inr ''ng-1 v2'' :: string + string), kube_calls = [],
      cluster_calls = [UpdateNodeClaim ''ng-1 v1'']\<rparr>
     \<lparr>NamespacedName = \<lparr>Namespace = [], Name = ''ng-1''\<rparr>\<rparr>))
   = [UpdateNodeClaim ''ng-1 v1'', UpdateNodeClaim ''ng-1 v2'']"
proof -
  have delay: "RequeueAfter (fst (fst (Reconcile (\<lambda>e. e = ''NotFound'') 60000000000
     \<lparr>resource_store = (\<lambda>k. Inr ''ng-1 v2'' :: string + string), kube_calls = [],
      cluster_calls = [UpdateNodeClaim ''ng-1 v1'']\<rparr>
     \<lparr>NamespacedName = \<lparr>Namespace = [], Name = ''ng-1''\<rparr>\<rparr>)))
   = 60000000000"
    by (simp add: Reconcile_Inr)
  show ?thesis
    using delay
      Reconcile_requeue_only_after_upsert [of
        "\<lparr>resource_store = (\<lambda>k. Inl ''NotFound''), kube_calls = [],
          cluster_calls = [UpdateNodeClaim ''ng-1 v1'']\<rparr>"
        "\<lparr>NamespacedName = \<lparr>Namespace = [], Name = ''ng-1''\<rparr>\<rparr>"
        "''NotFound''" "\<lambda>e. e = ''NotFound''" 60000000000]
      Reconcile_requeue_only_after_upsert [of
        "\<lparr>resource_store = (\<lambda>k. Inr ''ng-1 v2'' :: string + string), kube_calls = [],
          cluster_calls = [UpdateNodeClaim ''ng-1 v1'']\<rparr>"
        "\<lparr>NamespacedName = \<lparr>Namespace = [], Name = ''ng-1''\<rparr>\<rparr>"
        "''NotFound''" "\<lambda>e. e = ''NotFound''" 60000000000]
    by simp
qed

end
